theory Spec2Isabelle
  imports Complex_Main
begin

section \<open>Data model (backend/models)\<close>

text \<open>
  ObjectIds are kept as their hex strings, dates as milliseconds since the epoch.
  JavaScript numbers that hold minute counts and timestamps are integers here; the
  coordinates and the random draw are real numbers (the idealisation of the doubles).
\<close>

type_synonym oid = string
type_synonym msec = int

text \<open>\<^verbatim>\<open>status: enum ['pending', 'in-progress', 'completed', 'cancelled', 'expired']\<close>\<close>

datatype req_status = Pending | InProgress | Completed | Cancelled | Expired

text \<open>\<^verbatim>\<open>status: enum ['offline', 'online', 'active', 'in-progress']\<close> of the user schema.\<close>

datatype user_status = UOffline | UOnline | UActive | UInProgress

datatype role = Seeker | Provider

text \<open>\<^verbatim>\<open>history: [{ provider, status: enum ['accepted', 'completed'], timestamp }]\<close>\<close>

datatype history_status = HistAccepted | HistCompleted

record history_item =
  h_provider :: "oid option"
  h_status :: history_status
  h_timestamp :: msec

text \<open>
  The request schema. \<open>rid\<close> is the document's \<^verbatim>\<open>_id\<close>. \<open>generatedPin\<close> is declared
  \<^verbatim>\<open>{ type: String }\<close>: a stored code is a string, an unset one is \<^verbatim>\<open>undefined\<close>
  (\<open>None\<close>). The \<^verbatim>\<open>updatedAt\<close> bookkeeping of \<^verbatim>\<open>timestamps: true\<close> is not modelled.
\<close>

record request =
  rid :: oid
  seeker :: oid
  category :: string
  description :: string
  contactNumber :: string
  location :: "real list"
  duration :: int
  additionalDetails :: "string option"
  provider :: "oid option"
  status :: req_status
  generatedPin :: "string option"
  pinGeneratedAt :: "msec option"
  history :: "history_item list"
  createdAt :: msec
  expirationTime :: msec

text \<open>
  The fields of the user schema that the request handlers read or write; \<open>coordinates\<close>
  is \<^verbatim>\<open>location.coordinates\<close>, \<open>None\<close> when the user has none on file.
\<close>

record user =
  uid :: oid
  u_role :: role
  skills :: "string list"
  coordinates :: "real list option"
  u_status :: user_status

text \<open>The two collections; the list order is the natural order of the documents.\<close>

record db =
  requests :: "request list"
  users :: "user list"

text \<open>\<^verbatim>\<open>req.user = decoded.user\<close>: the id and role carried by the token.\<close>

record req_user =
  ru_id :: oid
  ru_role :: role

section \<open>Collection primitives\<close>

text \<open>\<^verbatim>\<open>updateOne\<close>: the first document matching the filter is updated, no other.\<close>

fun update_first :: "('a \<Rightarrow> bool) \<Rightarrow> ('a \<Rightarrow> 'a) \<Rightarrow> 'a list \<Rightarrow> 'a list" where
  "update_first P f [] = []"
| "update_first P f (x # xs) = (if P x then f x # xs else x # update_first P f xs)"

text \<open>\<^verbatim>\<open>updateMany\<close>: every document matching the filter is updated.\<close>

definition update_many :: "('a \<Rightarrow> bool) \<Rightarrow> ('a \<Rightarrow> 'a) \<Rightarrow> 'a list \<Rightarrow> 'a list" where
  "update_many P f xs = map (\<lambda>x. if P x then f x else x) xs"

section \<open>Expiry sweep (query middleware of the request schema)\<close>

text \<open>
  The filter of both sweeps:
  \<^verbatim>\<open>{ expirationTime: { $lt: currentTime }, status: { $ne: 'expired' } }\<close>,
  and their update \<^verbatim>\<open>{ status: 'expired' }\<close>.
\<close>

definition overdue :: "msec \<Rightarrow> request \<Rightarrow> bool" where
  "overdue currentTime r \<longleftrightarrow> expirationTime r < currentTime \<and> status r \<noteq> Expired"

definition set_expired :: "request \<Rightarrow> request" where
  "set_expired r = r\<lparr>status := Expired\<rparr>"

text \<open>\<^verbatim>\<open>requestSchema.pre('find')\<close>: \<^verbatim>\<open>updateMany\<close> with the filter above.\<close>

definition pre_find :: "msec \<Rightarrow> request list \<Rightarrow> request list" where
  "pre_find currentTime reqs = update_many (overdue currentTime) set_expired reqs"

text \<open>\<^verbatim>\<open>requestSchema.pre('findOne')\<close>: \<^verbatim>\<open>updateOne\<close> with the same filter.\<close>

definition pre_findOne :: "msec \<Rightarrow> request list \<Rightarrow> request list" where
  "pre_findOne currentTime reqs = update_first (overdue currentTime) set_expired reqs"

text \<open>The sweep as an operation on the store: the pass that runs before every listing.\<close>

definition sweepExpired :: "msec \<Rightarrow> db \<Rightarrow> db" where
  "sweepExpired currentTime s = s\<lparr>requests := pre_find currentTime (requests s)\<rparr>"

text \<open>
  \<^verbatim>\<open>ServiceRequest.find(filter)\<close>: the \<^verbatim>\<open>find\<close> middleware runs, then the filter is
  evaluated on the swept collection. The result is the documents found and the collection.
\<close>

definition find_requests ::
  "msec \<Rightarrow> (request \<Rightarrow> bool) \<Rightarrow> request list \<Rightarrow> request list \<times> request list" where
  "find_requests currentTime flt reqs =
     (let reqs' = pre_find currentTime reqs in (filter flt reqs', reqs'))"

text \<open>
  \<^verbatim>\<open>ServiceRequest.findById(id)\<close> is a \<^verbatim>\<open>findOne\<close> query: the \<^verbatim>\<open>findOne\<close>
  middleware runs first.
\<close>

definition findById_request ::
  "msec \<Rightarrow> oid \<Rightarrow> request list \<Rightarrow> request option \<times> request list" where
  "findById_request currentTime i reqs =
     (let reqs' = pre_findOne currentTime reqs in (find (\<lambda>r. rid r = i) reqs', reqs'))"

text \<open>\<^verbatim>\<open>User.findById(id)\<close>; the user schema has no query middleware.\<close>

definition findById_user :: "oid \<Rightarrow> user list \<Rightarrow> user option" where
  "findById_user i us = find (\<lambda>u. uid u = i) us"

section \<open>Save middleware of the request schema\<close>

text \<open>
  First \<^verbatim>\<open>pre('save')\<close> hook:
  \<^verbatim>\<open>this.expirationTime = new Date(Date.now() + this.duration * 60 * 1000)\<close>.
  It runs on every save; \<open>now\<close> is the clock read by that save.
\<close>

definition pre_save_expiration :: "msec \<Rightarrow> request \<Rightarrow> request" where
  "pre_save_expiration now doc = doc\<lparr>expirationTime := now + duration doc * 60 * 1000\<rparr>"

text \<open>
  Second \<^verbatim>\<open>pre('save')\<close> hook: when \<^verbatim>\<open>this.isModified('status')\<close>, a status of
  \<^verbatim>\<open>'in-progress'\<close> pushes an \<^verbatim>\<open>accepted\<close> entry and a status of \<^verbatim>\<open>'completed'\<close>
  pushes a \<^verbatim>\<open>completed\<close> entry, each with \<^verbatim>\<open>this.provider || null\<close> and the current
  date.
\<close>

definition push_history :: "history_status \<Rightarrow> msec \<Rightarrow> request \<Rightarrow> request" where
  "push_history k now doc =
     doc\<lparr>history := history doc @
            [\<lparr>h_provider = provider doc, h_status = k, h_timestamp = now\<rparr>]\<rparr>"

definition pre_save_history :: "msec \<Rightarrow> bool \<Rightarrow> request \<Rightarrow> request" where
  "pre_save_history now status_modified doc =
     (if status_modified then
        (let d1 = (if status doc = InProgress then push_history HistAccepted now doc else doc);
             d2 = (if status d1 = Completed then push_history HistCompleted now d1 else d1)
         in d2)
      else doc)"

text \<open>The hooks run in the order of their registration.\<close>

definition run_save_hooks :: "msec \<Rightarrow> msec \<Rightarrow> bool \<Rightarrow> request \<Rightarrow> request" where
  "run_save_hooks t_exp t_hist status_modified doc =
     pre_save_history t_hist status_modified (pre_save_expiration t_exp doc)"

text \<open>Writing a loaded document back: the stored document with its \<^verbatim>\<open>_id\<close> is replaced.\<close>

definition store_request :: "request \<Rightarrow> request list \<Rightarrow> request list" where
  "store_request doc reqs = update_first (\<lambda>r. rid r = rid doc) (\<lambda>_. doc) reqs"

text \<open>
  \<^verbatim>\<open>user.status = ...; await user.save()\<close>: only the modified path is written. (The
  user schema's own save hook acts only when the password is modified.)
\<close>

definition save_user_status :: "oid \<Rightarrow> user_status \<Rightarrow> user list \<Rightarrow> user list" where
  "save_user_status i st us = update_first (\<lambda>u. uid u = i) (\<lambda>u. u\<lparr>u_status := st\<rparr>) us"

section \<open>JavaScript values of a request body\<close>

text \<open>
  What \<^verbatim>\<open>req.body.pin\<close> can be after JSON parsing: absent (\<^verbatim>\<open>undefined\<close>),
  \<^verbatim>\<open>null\<close>, a boolean, a number, a string, or an array or object (\<open>JObject\<close>,
  a fresh reference).
\<close>

datatype jsval = JUndefined | JNull | JBool bool | JNumber real | JString string | JObject

text \<open>The stored code as the JavaScript value that \<^verbatim>\<open>request.generatedPin\<close> reads.\<close>

definition js_of_pin :: "string option \<Rightarrow> jsval" where
  "js_of_pin p = (case p of None \<Rightarrow> JUndefined | Some str \<Rightarrow> JString str)"

text \<open>
  Strict equality \<^verbatim>\<open>===\<close>: values of different types are never equal, and a freshly
  parsed object is equal to nothing else.
\<close>

fun strict_equals :: "jsval \<Rightarrow> jsval \<Rightarrow> bool" where
  "strict_equals JUndefined JUndefined = True"
| "strict_equals JNull JNull = True"
| "strict_equals (JBool a) (JBool b) = (a = b)"
| "strict_equals (JNumber a) (JNumber b) = (a = b)"
| "strict_equals (JString a) (JString b) = (a = b)"
| "strict_equals _ _ = False"

section \<open>Verification code\<close>

text \<open>
  \<^verbatim>\<open>Math.floor(100000 + Math.random() * 900000)\<close>, with the draw of
  \<^verbatim>\<open>Math.random()\<close> as the argument.
\<close>

definition generate_pin :: "real \<Rightarrow> int" where
  "generate_pin rnd = \<lfloor>100000 + rnd * 900000\<rfloor>"

text \<open>
  Assigning the number to the \<^verbatim>\<open>String\<close> path casts it to its decimal string.
\<close>

definition digit_char :: "nat \<Rightarrow> char" where
  "digit_char d = ''0123456789'' ! d"

fun dec_string :: "nat \<Rightarrow> string" where
  "dec_string n = (if n < 10 then [digit_char n] else dec_string (n div 10) @ [digit_char (n mod 10)])"

declare dec_string.simps [simp del]

definition cast_string :: "int \<Rightarrow> string" where
  "cast_string i = (if i < 0 then CHR ''-'' # dec_string (nat (- i)) else dec_string (nat i))"

section \<open>Handlers (backend/controllers/serviceRequestController.js)\<close>

text \<open>
  The responses that end a handler early, named as the specification names them:
  \<open>AuthorizationError\<close> is a 403, \<open>NotFound\<close> the 404, \<open>ServerError\<close> the 500 of the
  \<^verbatim>\<open>catch\<close> block; the others are the handlers' 400s:
  \<open>ProviderBusy\<close> ("You have an active/ongoing request in progress"),
  \<open>AlreadyClaimed\<close> ("Request is no longer active"), \<open>InvalidPin\<close> ("Invalid PIN"),
  \<open>InvalidState\<close> ("Request is in progress and cannot be cancelled."),
  \<open>InvalidLocation\<close> ("Invalid location").
\<close>

datatype error =
  AuthorizationError | ProviderBusy | NotFound | AlreadyClaimed | InvalidPin
  | InvalidState | InvalidLocation | ServerError

text \<open>
  Every handler returns its response and the store it leaves. Each reading of the clock
  is an argument: \<open>t_find\<close> is read by the query middleware, \<open>t_exp\<close> and \<open>t_hist\<close> by
  the two save hooks.
\<close>

text \<open>The body of \<^verbatim>\<open>createRequest\<close>, already cast to the schema's types.\<close>

record payload =
  p_category :: string
  p_description :: string
  p_contactNumber :: string
  p_location :: "real list"
  p_duration :: int
  p_additionalDetails :: "string option"



text \<open>
  \<^verbatim>\<open>acceptRequest\<close>. The user is loaded before the role is tested; a missing user makes
  \<^verbatim>\<open>user.status\<close> throw, which the \<^verbatim>\<open>catch\<close> block answers with the 500.
\<close>

definition acceptRequest ::
  "msec \<Rightarrow> msec \<Rightarrow> msec \<Rightarrow> real \<Rightarrow> req_user \<Rightarrow> oid \<Rightarrow> db \<Rightarrow> (error + request) \<times> db" where
  "acceptRequest t_find t_exp t_hist rnd ru requestId s =
     (let user = findById_user (ru_id ru) (users s) in
      if ru_role ru \<noteq> Provider then (Inl AuthorizationError, s)
      else case user of
        None \<Rightarrow> (Inl ServerError, s)
      | Some u \<Rightarrow>
          if u_status u = UInProgress then (Inl ProviderBusy, s)
          else
            (let found = findById_request t_find requestId (requests s);
                 s1 = s\<lparr>requests := snd found\<rparr>
             in case fst found of
               None \<Rightarrow> (Inl NotFound, s1)
             | Some request \<Rightarrow>
                 if status request \<noteq> Pending then (Inl AlreadyClaimed, s1)
                 else
                   (let request' = request
                          \<lparr>status := InProgress,
                           provider := Some (ru_id ru),
                           generatedPin := Some (cast_string (generate_pin rnd))\<rparr>;
                        s2 = s1\<lparr>users := save_user_status (ru_id ru) UInProgress (users s1)\<rparr>;
                        saved = run_save_hooks t_exp t_hist
                                  (status request' \<noteq> status request) request';
                        s3 = s2\<lparr>requests := store_request saved (requests s2)\<rparr>
                    in (Inr saved, s3))))"

text \<open>
  \<^verbatim>\<open>completeRequest\<close>. Its only tests are that the request exists and that
  \<^verbatim>\<open>request.generatedPin !== pin\<close> is false. The request is saved before the user is
  loaded; a missing user then throws after the request has been written.
\<close>

definition completeRequest ::
  "msec \<Rightarrow> msec \<Rightarrow> msec \<Rightarrow> jsval \<Rightarrow> req_user \<Rightarrow> oid \<Rightarrow> db \<Rightarrow> (error + request) \<times> db" where
  "completeRequest t_find t_exp t_hist pin ru requestId s =
     (let found = findById_request t_find requestId (requests s);
          s1 = s\<lparr>requests := snd found\<rparr>
      in case fst found of
        None \<Rightarrow> (Inl NotFound, s1)
      | Some request \<Rightarrow>
          if \<not> strict_equals (js_of_pin (generatedPin request)) pin then (Inl InvalidPin, s1)
          else
            (let request' = request\<lparr>status := Completed\<rparr>;
                 saved = run_save_hooks t_exp t_hist
                           (status request' \<noteq> status request) request';
                 s2 = s1\<lparr>requests := store_request saved (requests s1)\<rparr>
             in case findById_user (ru_id ru) (users s2) of
               None \<Rightarrow> (Inl ServerError, s2)
             | Some u \<Rightarrow>
                 (Inr saved, s2\<lparr>users := save_user_status (ru_id ru) UOnline (users s2)\<rparr>)))"

text \<open>
  \<^verbatim>\<open>cancelRequest\<close>. The loaded user is only logged. The tests are the role of the
  token, the existence of the request and its status. The HTTP body of a success carries
  a message only; the result here is the document as saved.
\<close>

definition cancelRequest ::
  "msec \<Rightarrow> msec \<Rightarrow> msec \<Rightarrow> req_user \<Rightarrow> oid \<Rightarrow> db \<Rightarrow> (error + request) \<times> db" where
  "cancelRequest t_find t_exp t_hist ru requestId s =
     (if ru_role ru \<noteq> Seeker then (Inl AuthorizationError, s)
      else
        (let found = findById_request t_find requestId (requests s);
             s1 = s\<lparr>requests := snd found\<rparr>
         in case fst found of
           None \<Rightarrow> (Inl NotFound, s1)
         | Some request \<Rightarrow>
             if status request \<noteq> Pending then (Inl InvalidState, s1)
             else
               (let request' = request\<lparr>status := Cancelled\<rparr>;
                    saved = run_save_hooks t_exp t_hist
                              (status request' \<noteq> status request) request'
                in (Inr saved, s1\<lparr>requests := store_request saved (requests s1)\<rparr>))))"



section \<open>Listings\<close>

text \<open>
  \<^verbatim>\<open>$geoWithin: { $centerSphere: [center, radians] }\<close> is evaluated by the database:
  a point matches when its central angle from the centre is at most \<open>radians\<close>. The
  angle between two \<^verbatim>\<open>[longitude, latitude]\<close> points is the database's computation and
  is the parameter \<open>angle\<close> of the model.
\<close>

definition geoWithin_centerSphere ::
  "(real list \<Rightarrow> real list \<Rightarrow> real) \<Rightarrow> real list \<Rightarrow> real \<Rightarrow> real list \<Rightarrow> bool" where
  "geoWithin_centerSphere angle center radians point \<longleftrightarrow> angle center point \<le> radians"

text \<open>
  \<^verbatim>\<open>getActiveRequests\<close>. \<open>t_query\<close> is the \<^verbatim>\<open>new Date()\<close> of the filter, read when the
  query is built; \<open>t_find\<close> is read by the middleware when the query runs. The
  \<^verbatim>\<open>populate\<close> of the seeker is presentation and is left out.
\<close>

definition getActiveRequests ::
  "(real list \<Rightarrow> real list \<Rightarrow> real) \<Rightarrow> msec \<Rightarrow> msec \<Rightarrow> req_user \<Rightarrow> db
     \<Rightarrow> (error + request list) \<times> db" where
  "getActiveRequests angle t_query t_find ru s =
     (if ru_role ru \<noteq> Provider then (Inl AuthorizationError, s)
      else case findById_user (ru_id ru) (users s) of
        None \<Rightarrow> (Inl ServerError, s)
      | Some user \<Rightarrow>
          (let radius = 1000 in
           if u_status user = UInProgress then (Inl ProviderBusy, s)
           else case coordinates user of
             None \<Rightarrow> (Inl InvalidLocation, s)
           | Some cs \<Rightarrow>
               if length cs \<noteq> 2 then (Inl InvalidLocation, s)
               else
                 (let found = find_requests t_find
                        (\<lambda>r. category r \<in> set (skills user) \<and>
                             geoWithin_centerSphere angle [cs ! 0, cs ! 1]
                               (radius / 6378.1) (location r) \<and>
                             t_query \<le> expirationTime r \<and>
                             status r = Pending)
                        (requests s)
                  in (Inr (fst found), s\<lparr>requests := snd found\<rparr>))))"

text \<open>
  \<^verbatim>\<open>getRequestHistory\<close>: a seeker's own requests, or the requests whose history names
  the provider. The result is the documents found; the handler's projection of them into
  the response (which copies \<^verbatim>\<open>status\<close> and \<^verbatim>\<open>expirationTime\<close> unchanged) is left
  out. The token's role is one of the two, so the handler's last branch is not reached.
\<close>

definition getRequestHistory :: "msec \<Rightarrow> req_user \<Rightarrow> db \<Rightarrow> (error + request list) \<times> db" where
  "getRequestHistory t_find ru s =
     (let flt = (case ru_role ru of
                   Seeker \<Rightarrow> (\<lambda>r. seeker r = ru_id ru)
                 | Provider \<Rightarrow> (\<lambda>r. Some (ru_id ru) \<in> set (map h_provider (history r))));
          found = find_requests t_find flt (requests s)
      in (Inr (fst found), s\<lparr>requests := snd found\<rparr>))"

section \<open>Location tracking service (client)\<close>

text \<open>The \<^verbatim>\<open>coords\<close> of a Geolocation position; the last four may be \<^verbatim>\<open>null\<close>.\<close>

record coords =
  latitude :: real
  longitude :: real
  accuracy :: real
  altitude :: "real option"
  altitudeAccuracy :: "real option"
  heading :: "real option"
  speed :: "real option"

record position =
  pos_coords :: coords
  timestamp :: int

record tracking_options =
  enableHighAccuracy :: bool
  maximumAge :: int
  timeout :: int
  distanceFilter :: real

record service =
  isTracking :: bool
  lastPosition :: "position option"
  trackingOptions :: tracking_options
  updateInterval :: int
  permissionDenied :: bool
  batteryFriendly :: bool
  minAccuracy :: real

text \<open>The constructor of \<^verbatim>\<open>LocationTrackingService\<close>.\<close>

definition constructor :: service where
  "constructor =
     \<lparr>isTracking = False, lastPosition = None,
      trackingOptions = \<lparr>enableHighAccuracy = True, maximumAge = 30000, timeout = 27000,
                         distanceFilter = 10\<rparr>,
      updateInterval = 10000, permissionDenied = False, batteryFriendly = True,
      minAccuracy = 50\<rparr>"

text \<open>
  \<^verbatim>\<open>Math.atan2(y, x)\<close> on the reals (signed zeros do not exist here; at the origin the
  result is 0).
\<close>

definition atan2 :: "real \<Rightarrow> real \<Rightarrow> real" where
  "atan2 y x =
     (if 0 < x then arctan (y / x)
      else if x < 0 \<and> 0 \<le> y then arctan (y / x) + pi
      else if x < 0 then arctan (y / x) - pi
      else if 0 < y then pi / 2
      else if y < 0 then - (pi / 2)
      else 0)"

text \<open>
  \<^verbatim>\<open>_calculateDistance\<close>: the haversine distance in metres, over the reals.
\<close>

definition calculateDistance :: "real \<Rightarrow> real \<Rightarrow> real \<Rightarrow> real \<Rightarrow> real" where
  "calculateDistance lat1 lon1 lat2 lon2 =
     (let R = 6371000;
          phi1 = lat1 * pi / 180;
          phi2 = lat2 * pi / 180;
          dphi = (lat2 - lat1) * pi / 180;
          dlambda = (lon2 - lon1) * pi / 180;
          a = sin (dphi / 2) * sin (dphi / 2) +
              cos phi1 * cos phi2 * sin (dlambda / 2) * sin (dlambda / 2);
          c = 2 * atan2 (sqrt a) (sqrt (1 - a))
      in R * c)"

text \<open>\<^verbatim>\<open>_shouldUpdatePosition\<close>.\<close>

definition shouldUpdatePosition :: "service \<Rightarrow> position \<Rightarrow> bool" where
  "shouldUpdatePosition this pos =
     (case lastPosition this of
        None \<Rightarrow> True
      | Some prev \<Rightarrow>
          if batteryFriendly this \<and> accuracy (pos_coords pos) > minAccuracy this then False
          else
            (let distance = calculateDistance
                   (latitude (pos_coords prev)) (longitude (pos_coords prev))
                   (latitude (pos_coords pos)) (longitude (pos_coords pos));
                 timeDiff = timestamp pos - timestamp prev;
                 timeThreshold = 60000
             in distance > distanceFilter (trackingOptions this) \<or> timeDiff > timeThreshold))"

text \<open>
  \<^verbatim>\<open>_handlePositionUpdate\<close>: when the reading passes the test it becomes the last
  position and is handed to the listeners (and, for a provider with a socket service, to
  the socket); the second component is the position propagated, \<open>None\<close> when the reading
  is dropped. (\<^verbatim>\<open>_formatPosition\<close> copies the coordinates and the timestamp.)
\<close>

definition handlePositionUpdate :: "service \<Rightarrow> position \<Rightarrow> service \<times> position option" where
  "handlePositionUpdate this pos =
     (if shouldUpdatePosition this pos
      then (this\<lparr>lastPosition := Some pos\<rparr>, Some pos)
      else (this, None))"

section \<open>Sample data\<close>

text \<open>A seeker, a second seeker and two providers with the skill \<open>plumbing\<close>.\<close>

definition alice :: user where
  "alice = \<lparr>uid = ''a1'', u_role = Seeker, skills = [], coordinates = None,
            u_status = UOffline\<rparr>"

definition bob :: user where
  "bob = \<lparr>uid = ''b2'', u_role = Seeker, skills = [], coordinates = None,
          u_status = UOffline\<rparr>"

definition pat :: user where
  "pat = \<lparr>uid = ''p3'', u_role = Provider, skills = [''plumbing''],
          coordinates = Some [77.59, 12.97], u_status = UOnline\<rparr>"

definition quinn :: user where
  "quinn = \<lparr>uid = ''q4'', u_role = Provider, skills = [''plumbing''],
            coordinates = Some [77.59, 12.97], u_status = UInProgress\<rparr>"

definition alice_token :: req_user where
  "alice_token = \<lparr>ru_id = ''a1'', ru_role = Seeker\<rparr>"

definition bob_token :: req_user where
  "bob_token = \<lparr>ru_id = ''b2'', ru_role = Seeker\<rparr>"

definition pat_token :: req_user where
  "pat_token = \<lparr>ru_id = ''p3'', ru_role = Provider\<rparr>"

definition quinn_token :: req_user where
  "quinn_token = \<lparr>ru_id = ''q4'', ru_role = Provider\<rparr>"

text \<open>
  Alice's request for a plumber, valid for 30 minutes, as her \<^verbatim>\<open>createRequest\<close> at
  time 0 saved it: pending, expiring at 1800000 ms.
\<close>

definition leak :: request where
  "leak = \<lparr>rid = ''r1'', seeker = ''a1'', category = ''plumbing'',
           description = ''leaking tap'', contactNumber = ''9876543210'',
           location = [77.59, 12.97], duration = 30, additionalDetails = None,
           provider = None, status = Pending, generatedPin = None, pinGeneratedAt = None,
           history = [], createdAt = 0, expirationTime = 1800000\<rparr>"

definition leak_payload :: payload where
  "leak_payload = \<lparr>p_category = ''plumbing'', p_description = ''leaking tap'',
                   p_contactNumber = ''9876543210'', p_location = [77.59, 12.97],
                   p_duration = 30, p_additionalDetails = None\<rparr>"

text \<open>
  A geometry in which every point is 10 km from every centre: a central angle of
  10 / 6378.1 radians.
\<close>

definition ten_km_apart :: "real list \<Rightarrow> real list \<Rightarrow> real" where
  "ten_km_apart center point = 10 / 6378.1"

definition people :: "user list" where
  "people = [alice, bob, pat, quinn]"

definition store0 :: db where
  "store0 = \<lparr>requests = [leak], users = people\<rparr>"

text \<open>
  The request after Pat's \<^verbatim>\<open>acceptRequest\<close> at time 60000 with the draw 1/2, and the
  store then.
\<close>

definition leak_accepted :: request where
  "leak_accepted = leak\<lparr>provider := Some ''p3'', status := InProgress,
      generatedPin := Some ''550000'',
      history := [\<lparr>h_provider = Some ''p3'', h_status = HistAccepted, h_timestamp = 60000\<rparr>],
      expirationTime := 1860000\<rparr>"

definition store1 :: db where
  "store1 = \<lparr>requests = [leak_accepted],
             users = [alice, bob, pat\<lparr>u_status := UInProgress\<rparr>, quinn]\<rparr>"

text \<open>
  The request after Pat's \<^verbatim>\<open>completeRequest\<close> at time 120000 with the code
  \<^verbatim>\<open>"550000"\<close>, and the store then.
\<close>

definition leak_completed :: request where
  "leak_completed = leak_accepted\<lparr>status := Completed,
      history := [\<lparr>h_provider = Some ''p3'', h_status = HistAccepted, h_timestamp = 60000\<rparr>,
                  \<lparr>h_provider = Some ''p3'', h_status = HistCompleted, h_timestamp = 120000\<rparr>],
      expirationTime := 1920000\<rparr>"

definition store2 :: db where
  "store2 = \<lparr>requests = [leak_completed], users = people\<rparr>"

text \<open>
  A reading of the geolocation API at Alice's address, and the tracking service after it
  has propagated that reading.
\<close>

definition home :: position where
  "home = \<lparr>pos_coords = \<lparr>latitude = 12.97, longitude = 77.59, accuracy = 5,
             altitude = None, altitudeAccuracy = None, heading = None, speed = None\<rparr>,
           timestamp = 0\<rparr>"

definition tracking :: service where
  "tracking = constructor\<lparr>isTracking := True, lastPosition := Some home\<rparr>"

section \<open>Unfolding rules and basic facts\<close>

lemmas sample_defs = store0_def people_def leak_def alice_def bob_def pat_def quinn_def
  alice_token_def bob_token_def pat_token_def quinn_token_def leak_payload_def
  leak_accepted_def store1_def leak_completed_def store2_def

lemmas sweep_defs = sweepExpired_def pre_find_def pre_findOne_def update_many_def overdue_def
  set_expired_def find_requests_def findById_request_def findById_user_def

lemmas save_defs = run_save_hooks_def pre_save_expiration_def pre_save_history_def
  push_history_def store_request_def save_user_status_def

lemma dec_string_small: "n < 10 \<Longrightarrow> dec_string n = [digit_char n]"
  by (simp add: dec_string.simps)

lemma dec_string_big:
  "10 \<le> n \<Longrightarrow> dec_string n = dec_string (n div 10) @ [digit_char (n mod 10)]"
  by (subst dec_string.simps) simp

lemmas pin_defs = generate_pin_def cast_string_def dec_string_small dec_string_big
  digit_char_def

lemma overdue_set_expired: "\<not> overdue t (set_expired r)"
  by (simp add: overdue_def set_expired_def)

lemma overdue_mono: "t1 \<le> t2 \<Longrightarrow> overdue t1 r \<Longrightarrow> overdue t2 r"
  by (simp add: overdue_def)

lemma pre_find_twice:
  "t1 \<le> t2 \<Longrightarrow> pre_find t2 (pre_find t1 reqs) = pre_find t2 reqs"
proof (induction reqs)
  case Nil
  then show ?case by (simp add: pre_find_def update_many_def)
next
  case (Cons r reqs)
  have tail: "pre_find t2 (pre_find t1 reqs) = pre_find t2 reqs"
    using Cons by simp
  have head: "(if overdue t2 (if overdue t1 r then set_expired r else r)
               then set_expired (if overdue t1 r then set_expired r else r)
               else (if overdue t1 r then set_expired r else r))
              = (if overdue t2 r then set_expired r else r)"
    using overdue_mono [OF Cons.prems, of r] by (simp add: overdue_set_expired)
  show ?case
    using tail head by (simp add: pre_find_def update_many_def)
qed


lemma find_rid_pre_findOne:
  "find (\<lambda>r. rid r = i) (pre_findOne t xs) = find (\<lambda>r. rid r = i) xs \<or>
   find (\<lambda>r. rid r = i) (pre_findOne t xs) = map_option set_expired (find (\<lambda>r. rid r = i) xs)"
  unfolding pre_findOne_def
  by (induction xs) (auto simp: set_expired_def)



lemma run_save_hooks_fields [simp]:
  "expirationTime (run_save_hooks te th m d) = te + duration d * 60 * 1000"
  "duration (run_save_hooks te th m d) = duration d"
  "rid (run_save_hooks te th m d) = rid d"
  "createdAt (run_save_hooks te th m d) = createdAt d"
  "status (run_save_hooks te th m d) = status d"
  "provider (run_save_hooks te th m d) = provider d"
  "generatedPin (run_save_hooks te th m d) = generatedPin d"
  "pinGeneratedAt (run_save_hooks te th m d) = pinGeneratedAt d"
  by (simp_all add: save_defs Let_def)


lemma find_rid_pre_findOne_Some:
  assumes "find (\<lambda>r. rid r = i) xs = Some r"
  shows "find (\<lambda>r. rid r = i) (pre_findOne t xs) = Some r \<or>
         find (\<lambda>r. rid r = i) (pre_findOne t xs) = Some (set_expired r)"
  using find_rid_pre_findOne [of i t xs] assms by auto






lemma same_place: "calculateDistance lat lon lat lon = 0"
  by (simp add: calculateDistance_def atan2_def Let_def)

section \<open>What a successful handler has done\<close>

lemma accept_success:
  assumes "acceptRequest tf te th rnd ru i s = (Inr r', s')"
  shows "\<exists>u r. ru_role ru = Provider \<and> findById_user (ru_id ru) (users s) = Some u \<and>
           u_status u \<noteq> UInProgress \<and>
           find (\<lambda>r. rid r = i) (pre_findOne tf (requests s)) = Some r \<and> status r = Pending \<and>
           r' = run_save_hooks te th True
                  (r\<lparr>status := InProgress, provider := Some (ru_id ru),
                     generatedPin := Some (cast_string (generate_pin rnd))\<rparr>) \<and>
           s' = \<lparr>requests = store_request r' (pre_findOne tf (requests s)),
                 users = save_user_status (ru_id ru) UInProgress (users s)\<rparr>"
  using assms
  by (auto simp: acceptRequest_def findById_request_def Let_def split: if_splits option.splits)




section \<open>Acceptance\<close>







section \<open>The expiration time\<close>




section \<open>The expiry sweep\<close>

text \<open>
  C8. The expiry sweep is idempotent: run twice at the same clock reading it leaves the
  store exactly as one run does; and when the second run reads a later clock, the two
  runs together leave the store as the single later run does.
\<close>

theorem sweepExpired_idempotent:
  "sweepExpired now (sweepExpired now s) = sweepExpired now s \<and>
   (t1 \<le> t2 \<longrightarrow> sweepExpired t2 (sweepExpired t1 s) = sweepExpired t2 s)"
  by (simp add: sweepExpired_def pre_find_twice)

theorem sweepExpired_idempotent_witness:
  "(1000::int) \<le> 2000000 \<and>
   sweepExpired 2000000 (sweepExpired 1000 store0) = sweepExpired 2000000 store0 \<and>
   map status (requests (sweepExpired 1000 store0)) = [Pending] \<and>
   map status (requests (sweepExpired 2000000 store0)) = [Expired]"
  using sweepExpired_idempotent
    [where now = 2000000 and s = store0 and ?t1.0 = 1000 and ?t2.0 = 2000000]
  by (simp add: sample_defs sweep_defs)

lemma pre_find_overdue:
  "r \<in> set (pre_find now reqs) \<Longrightarrow> expirationTime r < now \<Longrightarrow> status r = Expired"
  by (auto simp: pre_find_def update_many_def overdue_def set_expired_def split: if_splits)

text \<open>
  C2, as the code has it. A listing (the history of a user, or the active requests of a
  provider) runs the sweep of the \<^verbatim>\<open>find\<close> middleware first, and every request it
  returns whose expiration time is earlier than the clock reading of that sweep has the
  status expired, whatever its status was before, completed and cancelled included.
\<close>

theorem listing_shows_overdue_as_expired:
  assumes "fst (getRequestHistory now ru s) = Inr rs \<or>
           fst (getActiveRequests angle t_query now ru s) = Inr rs"
    and "r \<in> set rs" and "expirationTime r < now"
  shows "status r = Expired"
proof -
  have "\<exists>flt. rs = filter flt (pre_find now (requests s))"
    using assms(1)
    by (auto simp: getRequestHistory_def getActiveRequests_def find_requests_def Let_def
        split: if_splits option.splits)
  then have "r \<in> set (pre_find now (requests s))"
    using assms(2) by auto
  then show ?thesis
    using assms(3) by (rule pre_find_overdue)
qed

text \<open>
  The theorem at Alice's history, read at time 2000000 after her request was completed:
  the request, due at 1920000, is listed as expired.
\<close>

theorem listing_shows_overdue_as_expired_witness:
  "fst (getRequestHistory 2000000 alice_token store2)
     = Inr [leak_completed\<lparr>status := Expired\<rparr>] \<and>
   expirationTime (leak_completed\<lparr>status := Expired\<rparr>) < 2000000 \<and>
   status (leak_completed\<lparr>status := Expired\<rparr>) = Expired"
proof -
  have h: "fst (getRequestHistory 2000000 alice_token store2)
             = Inr [leak_completed\<lparr>status := Expired\<rparr>]"
    by (simp add: getRequestHistory_def sample_defs sweep_defs Let_def)
  have e: "expirationTime (leak_completed\<lparr>status := Expired\<rparr>) < 2000000"
    by (simp add: sample_defs)
  show ?thesis
    using h e listing_shows_overdue_as_expired
      [where now = 2000000 and ru = alice_token and s = store2
         and rs = "[leak_completed\<lparr>status := Expired\<rparr>]"
         and r = "leak_completed\<lparr>status := Expired\<rparr>"]
    by simp
qed

text \<open>
  C2 as stated fails in its exception: the sweep does change a completed request.
  Alice's request is completed and due at 1920000; the sweep at time 2000000 sets it to
  expired, and her history shows it so.
\<close>

theorem sweep_spares_terminal_counterexample:
  "status leak_completed = Completed \<and>
   expirationTime leak_completed < 2000000 \<and>
   requests store2 = [leak_completed] \<and>
   map_sum id (map status) (fst (getRequestHistory 2000000 alice_token store2))
     = Inr [Expired] \<and>
   map status (requests (sweepExpired 2000000 store2)) = [Expired]"
  by (simp add: getRequestHistory_def sample_defs sweep_defs Let_def)

section \<open>Completion\<close>

text \<open>
  C3 at a failing input. Alice's request is pending and has no code. A completion call
  whose body has no \<^verbatim>\<open>pin\<close> passes the only test (\<^verbatim>\<open>undefined !== undefined\<close> is
  false) and the request is saved as completed: the handler never looks at the status.
\<close>

theorem complete_without_status_check:
  "requests store0 = [leak] \<and> rid leak = ''r1'' \<and>
   status leak = Pending \<and> generatedPin leak = None \<and>
   map_sum id status (fst (completeRequest 1000 1000 1000 JUndefined pat_token ''r1'' store0))
     = Inr Completed \<and>
   map status (requests (snd (completeRequest 1000 1000 1000 JUndefined pat_token ''r1'' store0)))
     = [Completed]"
  by (simp add: completeRequest_def sample_defs sweep_defs save_defs js_of_pin_def Let_def)

text \<open>
  C10. The code stored by an accept is the decimal string of the number generated, and a
  completion call that submits a number, any number, for a request in the store fails
  with InvalidPin: a string or \<^verbatim>\<open>undefined\<close> is never strictly equal to a number. The
  store is changed by the sweep of the lookup only.
\<close>

theorem numeric_pin_rejected:
  "(acceptRequest t_find t_exp t_hist rnd ru i s = (Inr r', s') \<longrightarrow>
      generatedPin r' = Some (cast_string (generate_pin rnd))) \<and>
   (find (\<lambda>r. rid r = j) (requests s_c) = Some r \<longrightarrow>
      completeRequest t_look t_save t_push (JNumber n) ru_c j s_c
        = (Inl InvalidPin, s_c\<lparr>requests := pre_findOne t_look (requests s_c)\<rparr>))"
proof (intro conjI impI)
  assume "acceptRequest t_find t_exp t_hist rnd ru i s = (Inr r', s')"
  from accept_success [OF this] show "generatedPin r' = Some (cast_string (generate_pin rnd))"
    by auto
next
  assume "find (\<lambda>r. rid r = j) (requests s_c) = Some r"
  from find_rid_pre_findOne_Some [OF this, of t_look]
  obtain r1 where r1: "find (\<lambda>r. rid r = j) (pre_findOne t_look (requests s_c)) = Some r1"
    by blast
  have "\<not> strict_equals (js_of_pin (generatedPin r1)) (JNumber n)"
    by (cases "generatedPin r1") (simp_all add: js_of_pin_def)
  then show "completeRequest t_look t_save t_push (JNumber n) ru_c j s_c
        = (Inl InvalidPin, s_c\<lparr>requests := pre_findOne t_look (requests s_c)\<rparr>)"
    using r1 by (simp add: completeRequest_def findById_request_def Let_def)
qed

text \<open>
  The theorem at Alice's request after Pat's accept: the code is \<^verbatim>\<open>"550000"\<close>; the
  number 550000 is rejected, the string is accepted.
\<close>

theorem numeric_pin_rejected_witness:
  "acceptRequest 60000 60000 60000 (1 / 2) pat_token ''r1'' store0 = (Inr leak_accepted, store1) \<and>
   generate_pin (1 / 2) = 550000 \<and>
   generatedPin leak_accepted = Some (cast_string 550000) \<and>
   cast_string 550000 = ''550000'' \<and>
   find (\<lambda>r. rid r = ''r1'') (requests store1) = Some leak_accepted \<and>
   status leak_accepted = InProgress \<and>
   completeRequest 120000 120000 120000 (JNumber 550000) pat_token ''r1'' store1
     = (Inl InvalidPin, store1) \<and>
   completeRequest 120000 120000 120000 (JString ''550000'') pat_token ''r1'' store1
     = (Inr leak_completed, store2)"
proof -
  have a: "acceptRequest 60000 60000 60000 (1 / 2) pat_token ''r1'' store0
             = (Inr leak_accepted, store1)"
    by (simp add: acceptRequest_def sample_defs sweep_defs save_defs Let_def pin_defs)
  have g: "generate_pin (1 / 2) = 550000" "cast_string 550000 = ''550000''"
    by (simp_all add: pin_defs)
  have f: "find (\<lambda>r. rid r = ''r1'') (requests store1) = Some leak_accepted"
    "status leak_accepted = InProgress"
    "store1\<lparr>requests := pre_findOne 120000 (requests store1)\<rparr> = store1"
    by (simp_all add: sample_defs sweep_defs)
  have c: "completeRequest 120000 120000 120000 (JString ''550000'') pat_token ''r1'' store1
     = (Inr leak_completed, store2)"
    by (simp add: completeRequest_def sample_defs sweep_defs save_defs Let_def js_of_pin_def)
  show ?thesis
    using a g f c numeric_pin_rejected
      [where t_find = 60000 and t_exp = 60000 and t_hist = 60000 and rnd = "1 / 2"
         and ru = pat_token and i = "''r1''" and s = store0 and r' = leak_accepted
         and s' = store1 and j = "''r1''" and s_c = store1 and r = leak_accepted
         and t_look = 120000 and t_save = 120000 and t_push = 120000 and n = 550000
         and ru_c = pat_token]
    by simp
qed

section \<open>Matching\<close>

text \<open>
  C4 at a failing input. Pat has the skill of Alice's pending, unexpired request and is
  10 km away from it (a central angle of 10 / 6378.1). The listing returns the request:
  the radius of the query is 1000 km.
\<close>

theorem active_listing_radius_1000_km:
  "requests store0 = [leak] \<and> status leak = Pending \<and> (1000::int) \<le> expirationTime leak \<and>
   ten_km_apart [77.59, 12.97] (location leak) * 6378.1 = 10 \<and>
   fst (getActiveRequests ten_km_apart 1000 1000 pat_token store0) = Inr [leak]"
  by (simp add: getActiveRequests_def sample_defs sweep_defs geoWithin_centerSphere_def Let_def
      ten_km_apart_def)

section \<open>Cancellation\<close>

text \<open>
  C5 at a failing input. Bob is a seeker, and the pending request is Alice's. His cancel
  call succeeds and the request is saved as cancelled: the handler tests the role of the
  caller, not that the caller is the seeker of the request.
\<close>

theorem cancel_by_another_seeker:
  "requests store0 = [leak] \<and> rid leak = ''r1'' \<and> status leak = Pending \<and>
   seeker leak = ''a1'' \<and> ru_id bob_token = ''b2'' \<and> ru_role bob_token = Seeker \<and>
   map_sum id status (fst (cancelRequest 1000 1000 1000 bob_token ''r1'' store0))
     = Inr Cancelled \<and>
   map status (requests (snd (cancelRequest 1000 1000 1000 bob_token ''r1'' store0)))
     = [Cancelled]"
  by (simp add: cancelRequest_def sample_defs sweep_defs save_defs Let_def)

section \<open>Throttling of location updates\<close>

text \<open>
  C9. With a previous position on record and the distance filter of the constructor
  (10 metres), a reading is propagated only when the haversine distance from the previous
  position exceeds 10 metres or more than 60000 ms have passed since the previous
  position's timestamp; when neither holds the reading is dropped and the service is
  unchanged.
\<close>

theorem position_updates_throttled:
  assumes "lastPosition this = Some prev"
    and "distanceFilter (trackingOptions this) = 10"
  shows "(snd (handlePositionUpdate this pos) \<noteq> None \<longrightarrow>
            calculateDistance (latitude (pos_coords prev)) (longitude (pos_coords prev))
              (latitude (pos_coords pos)) (longitude (pos_coords pos)) > 10 \<or>
            timestamp pos - timestamp prev > 60000) \<and>
         (\<not> (calculateDistance (latitude (pos_coords prev)) (longitude (pos_coords prev))
               (latitude (pos_coords pos)) (longitude (pos_coords pos)) > 10 \<or>
             timestamp pos - timestamp prev > 60000) \<longrightarrow>
            handlePositionUpdate this pos = (this, None))"
  using assms
  by (simp add: handlePositionUpdate_def shouldUpdatePosition_def Let_def)

text \<open>
  The theorem at two readings taken at the previous position: the one 70 s later is
  propagated, the one 5 s later is dropped.
\<close>

theorem position_updates_throttled_witness:
  "lastPosition tracking = Some home \<and> distanceFilter (trackingOptions tracking) = 10 \<and>
   handlePositionUpdate tracking (home\<lparr>timestamp := 70000\<rparr>)
     = (tracking\<lparr>lastPosition := Some (home\<lparr>timestamp := 70000\<rparr>)\<rparr>,
        Some (home\<lparr>timestamp := 70000\<rparr>)) \<and>
   timestamp (home\<lparr>timestamp := 70000\<rparr>) - timestamp home > 60000 \<and>
   \<not> calculateDistance (latitude (pos_coords home)) (longitude (pos_coords home))
       (latitude (pos_coords home)) (longitude (pos_coords home)) > 10 \<and>
   \<not> timestamp (home\<lparr>timestamp := 5000\<rparr>) - timestamp home > 60000 \<and>
   handlePositionUpdate tracking (home\<lparr>timestamp := 5000\<rparr>) = (tracking, None)"
proof -
  have l: "lastPosition tracking = Some home"
    and f: "distanceFilter (trackingOptions tracking) = 10"
    by (simp_all add: tracking_def constructor_def)
  have far: "handlePositionUpdate tracking (home\<lparr>timestamp := 70000\<rparr>)
     = (tracking\<lparr>lastPosition := Some (home\<lparr>timestamp := 70000\<rparr>)\<rparr>,
        Some (home\<lparr>timestamp := 70000\<rparr>))"
    by (simp add: handlePositionUpdate_def shouldUpdatePosition_def Let_def tracking_def
        constructor_def home_def)
  have d: "\<not> calculateDistance (latitude (pos_coords home)) (longitude (pos_coords home))
       (latitude (pos_coords home)) (longitude (pos_coords home)) > 10"
    by (simp add: same_place)
  have t: "timestamp (home\<lparr>timestamp := 70000\<rparr>) - timestamp home > 60000"
    "\<not> timestamp (home\<lparr>timestamp := 5000\<rparr>) - timestamp home > 60000"
    by (simp_all add: home_def)
  show ?thesis
    using l f far d t
      position_updates_throttled [OF l f, of "home\<lparr>timestamp := 70000\<rparr>"]
      position_updates_throttled [OF l f, of "home\<lparr>timestamp := 5000\<rparr>"]
    by simp
qed

end
